theory Spec2Isabelle
  imports Complex_Main "HOL-Library.Char_ord" "HOL-Library.List_Lexorder" "HOL-Library.Multiset"
begin

section \<open>Hyperliquid consensus bot: a shallow embedding of the consensus engine\<close>

text \<open>
  The development follows \<^verbatim>\<open>hl_consensus.py\<close> (the engine, its Telegram command
  processor) and \<^verbatim>\<open>app.py\<close> (the HTTP \<^verbatim>\<open>PATCH /config\<close> endpoint).

  Conventions of the embedding.
  \<^item> Python \<^verbatim>\<open>str\<close> is \<open>string\<close> (a list of 8-bit characters); the case
    conversions and the whitespace test are the ASCII ones, so text outside ASCII is
    left as it is.
  \<^item> Python \<^verbatim>\<open>float\<close> is \<open>rat\<close>: sizes and prices are exact rationals, so the binary
    rounding error of a product or a difference is outside the model, and so are
    \<^verbatim>\<open>nan\<close> and \<^verbatim>\<open>inf\<close>. \<^verbatim>\<open>None\<close> is \<open>None\<close> of an option type.
  \<^item> A dictionary with a fixed set of keys is a record; \<^verbatim>\<open>last_signals\<close> and
    \<^verbatim>\<open>position_timestamps\<close> are maps from the key string.
  \<^item> Network answers (mid prices, the clearinghouse state of each wallet) and the clock
    are the fields of an environment record that each poll cycle or command receives.
  \<^item> Messages sent to Telegram are values of the datatype \<open>reply\<close>, one constructor per
    message of the source, carrying the values the message interpolates.
\<close>

subsection \<open>Strings\<close>

definition is_space :: "char \<Rightarrow> bool" where
  "is_space c = (c \<in> set [CHR '' '', CHR 0x09, CHR 0x0A, CHR 0x0B, CHR 0x0C, CHR 0x0D,
                           CHR 0x1C, CHR 0x1D, CHR 0x1E, CHR 0x1F])"

definition lower_char :: "char \<Rightarrow> char" where
  "lower_char c =
     (case map_of (zip ''ABCDEFGHIJKLMNOPQRSTUVWXYZ'' ''abcdefghijklmnopqrstuvwxyz'') c of
        Some d \<Rightarrow> d | None \<Rightarrow> c)"

definition upper_char :: "char \<Rightarrow> char" where
  "upper_char c =
     (case map_of (zip ''abcdefghijklmnopqrstuvwxyz'' ''ABCDEFGHIJKLMNOPQRSTUVWXYZ'') c of
        Some d \<Rightarrow> d | None \<Rightarrow> c)"

text \<open>\<^verbatim>\<open>s.lower()\<close>, \<^verbatim>\<open>s.upper()\<close>, \<^verbatim>\<open>s.strip()\<close>, \<^verbatim>\<open>s.startswith(p)\<close>.\<close>

definition lower :: "string \<Rightarrow> string" where
  "lower s = map lower_char s"

definition upper :: "string \<Rightarrow> string" where
  "upper s = map upper_char s"

definition strip :: "string \<Rightarrow> string" where
  "strip s = rev (dropWhile is_space (rev (dropWhile is_space s)))"

definition startswith :: "string \<Rightarrow> string \<Rightarrow> bool" where
  "startswith s p = (take (length p) s = p)"

text \<open>\<^verbatim>\<open>s.split()\<close>: the maximal runs of non-whitespace characters, in order.\<close>

fun split_acc :: "string \<Rightarrow> string \<Rightarrow> string list" where
  "split_acc cur [] = (if cur = [] then [] else [cur])"
| "split_acc cur (c # cs) =
     (if is_space c then (if cur = [] then split_acc [] cs else cur # split_acc [] cs)
      else split_acc (cur @ [c]) cs)"

definition split_ws :: "string \<Rightarrow> string list" where
  "split_ws s = split_acc [] s"

text \<open>\<^verbatim>\<open>s.split(maxsplit=1)\<close>: the first run, and what follows the whitespace after it
  (trailing whitespace kept) when anything does.\<close>

definition split_max1 :: "string \<Rightarrow> string list" where
  "split_max1 s =
     (case dropWhile is_space s of
        [] \<Rightarrow> []
      | t \<Rightarrow>
          (let first = takeWhile (\<lambda>c. \<not> is_space c) t;
               rest = dropWhile is_space (dropWhile (\<lambda>c. \<not> is_space c) t)
           in if rest = [] then [first] else [first, rest]))"

text \<open>\<^verbatim>\<open>sep.join(xs)\<close>.\<close>

fun join :: "string \<Rightarrow> string list \<Rightarrow> string" where
  "join sep [] = []"
| "join sep [x] = x"
| "join sep (x # y # ys) = x @ sep @ join sep (y # ys)"

text \<open>\<^verbatim>\<open>str(n)\<close> of a natural number: its decimal digits.\<close>

definition digit_char :: "nat \<Rightarrow> char" where
  "digit_char d = ''0123456789'' ! (d mod 10)"

fun str_nat :: "nat \<Rightarrow> string" where
  "str_nat n = (if n < 10 then [digit_char n] else str_nat (n div 10) @ [digit_char (n mod 10)])"

declare str_nat.simps [simp del]

subsection \<open>Wallet addresses\<close>

text \<open>\<^verbatim>\<open>_WALLET_RE = re.compile(r"^0x[a-fA-F0-9]{40}$")\<close>, used through \<^verbatim>\<open>match\<close>.
  In Python \<^verbatim>\<open>$\<close> also matches just before a final newline.\<close>

definition is_hex :: "char \<Rightarrow> bool" where
  "is_hex c = (c \<in> set ''0123456789abcdefABCDEF'')"

definition hex_address :: "string \<Rightarrow> bool" where
  "hex_address w = (length w = 42 \<and> take 2 w = ''0x'' \<and> list_all is_hex (drop 2 w))"

definition wallet_re_match :: "string \<Rightarrow> bool" where
  "wallet_re_match w =
     (hex_address w \<or> (length w = 43 \<and> hex_address (take 42 w) \<and> drop 42 w = [CHR 0x0A]))"

subsection \<open>Data model\<close>

datatype side = Long | Short

definition side_str :: "side \<Rightarrow> string" where
  "side_str s = (case s of Long \<Rightarrow> ''long'' | Short \<Rightarrow> ''short'')"

text \<open>\<^verbatim>\<open>f"{side}"\<close> of a side that may be \<^verbatim>\<open>None\<close>.\<close>

definition fmt_side :: "side option \<Rightarrow> string" where
  "fmt_side s = (case s of None \<Rightarrow> ''None'' | Some x \<Rightarrow> side_str x)"

text \<open>One entry of \<^verbatim>\<open>assetPositions\<close> with its numeric fields already read by
  \<^verbatim>\<open>float(...)\<close>: \<open>None\<close> is a missing, null or unreadable field.\<close>

record asset_position =
  ap_coin :: string
  ap_szi :: "rat option"
  ap_entryPx :: "rat option"
  ap_liquidationPx :: "rat option"
  ap_liqPx :: "rat option"

record pos_details =
  d_szi :: "rat option"
  d_entryPx :: "rat option"
  d_liqPx :: "rat option"

record row =
  addr :: string
  szi :: "rat option"
  side :: "side option"
  entry :: "rat option"
  mark :: "rat option"
  liq :: "rat option"
  val :: "rat option"
  upnl :: "rat option"
  opened_at :: "string option"

record signal =
  coin :: string
  sig_side :: side
  sig_count :: nat
  threshold :: int
  ts :: string
  sig_use_positions :: bool
  wallet_rows :: "row list"

text \<open>The \<^verbatim>\<open>config\<close> sub-object. A key whose default differs between its readers is an
  option (\<open>None\<close>: the key is missing); \<^verbatim>\<open>wallets\<close> is read with the default
  \<^verbatim>\<open>[]\<close> and \<^verbatim>\<open>use_positions\<close> with \<^verbatim>\<open>True\<close> everywhere, so a missing key is that
  value.\<close>

record config =
  wallets :: "string list"
  symbols :: "string list option"
  window_minutes :: "int option"
  min_nocional_usd :: "rat option"
  poll_seconds :: "int option"
  cooldown_minutes :: "int option"
  consensus_count :: "int option"
  use_positions :: bool

record engine =
  cfg :: config
  last_signals :: "string \<rightharpoonup> string"
  force_check_flag :: bool
  last_positions :: "string \<rightharpoonup> row list"
  position_timestamps :: "string \<rightharpoonup> string"

text \<open>What the outside world answers during one poll cycle or one command:
  \<^verbatim>\<open>get_all_mids()\<close> (keys already upper-cased), the \<^verbatim>\<open>assetPositions\<close> of
  \<^verbatim>\<open>clearinghouseState\<close> per wallet (empty when the request fails) and \<^verbatim>\<open>now_str()\<close>.\<close>

record env =
  mids :: "string \<rightharpoonup> rat"
  asset_positions :: "string \<Rightarrow> asset_position list"
  now :: string

text \<open>The threshold as the poll loop reads it: \<^verbatim>\<open>int(config.get("consensus_count", 1))\<close>.\<close>

definition consensus_of :: "config \<Rightarrow> int" where
  "consensus_of c = (case consensus_count c of None \<Rightarrow> 1 | Some n \<Rightarrow> n)"

definition coins_of :: "config \<Rightarrow> string list" where
  "coins_of c = (case symbols c of None \<Rightarrow> [''BTC''] | Some cs \<Rightarrow> cs)"

definition poll_seconds_of :: "config \<Rightarrow> int" where
  "poll_seconds_of c = (case poll_seconds c of None \<Rightarrow> 12 | Some n \<Rightarrow> n)"

subsection \<open>Sampling positions\<close>

text \<open>\<^verbatim>\<open>extract_pos_details\<close>: the first position of the coin (compared upper-cased)
  decides; \<^verbatim>\<open>liquidationPx or liqPx\<close> takes the second field when the first is
  missing.\<close>

fun extract_pos_details :: "asset_position list \<Rightarrow> string \<Rightarrow> pos_details" where
  "extract_pos_details [] c = \<lparr>d_szi = None, d_entryPx = None, d_liqPx = None\<rparr>"
| "extract_pos_details (a # as) c =
     (if upper (ap_coin a) \<noteq> upper c then extract_pos_details as c
      else \<lparr>d_szi = ap_szi a, d_entryPx = ap_entryPx a,
            d_liqPx = (case ap_liquidationPx a of Some l \<Rightarrow> Some l | None \<Rightarrow> ap_liqPx a)\<rparr>)"

text \<open>The side of a size, as \<^verbatim>\<open>loop\<close> and the \<^verbatim>\<open>/last\<close> handler compute it.\<close>

definition side_of :: "rat option \<Rightarrow> side option" where
  "side_of s =
     (case s of None \<Rightarrow> None
      | Some x \<Rightarrow> if x > 0 then Some Long else if x < 0 then Some Short else None)"

text \<open>\<^verbatim>\<open>value = (abs(szi) * px) if (szi is not None and px is not None) else None\<close> and
  \<^verbatim>\<open>upnl = ((px - entry) * szi) if (szi is not None and entry is not None and px is not None)
  else None\<close>.\<close>

definition value_of :: "rat option \<Rightarrow> rat option \<Rightarrow> rat option" where
  "value_of s px =
     (case s of None \<Rightarrow> None
      | Some x \<Rightarrow> (case px of None \<Rightarrow> None | Some p \<Rightarrow> Some (\<bar>x\<bar> * p)))"

definition upnl_of :: "rat option \<Rightarrow> rat option \<Rightarrow> rat option \<Rightarrow> rat option" where
  "upnl_of s e px =
     (case s of None \<Rightarrow> None
      | Some x \<Rightarrow>
         (case e of None \<Rightarrow> None
          | Some en \<Rightarrow> (case px of None \<Rightarrow> None | Some p \<Rightarrow> Some ((p - en) * x))))"

definition pos_key :: "string \<Rightarrow> string \<Rightarrow> side option \<Rightarrow> string" where
  "pos_key a c s = a @ '':'' @ c @ '':'' @ fmt_side s"

text \<open>The body of \<^verbatim>\<open>for addr in wallets\<close> in \<^verbatim>\<open>loop\<close>: the row of one wallet, and the
  timestamp table with the position's first sighting recorded.\<close>

definition loop_row :: "env \<Rightarrow> string \<Rightarrow> (string \<rightharpoonup> string) \<Rightarrow> string \<Rightarrow>
    (string \<rightharpoonup> string) \<times> row" where
  "loop_row e c tbl a =
     (let det = extract_pos_details (asset_positions e a) c;
          s = d_szi det; en = d_entryPx det; l = d_liqPx det;
          px = mids e (upper c);
          sd = side_of s;
          k = pos_key a c sd;
          tbl' = (if sd \<noteq> None \<and> tbl k = None then tbl(k \<mapsto> now e) else tbl)
      in (tbl', \<lparr>addr = a, szi = s, side = sd, entry = en, mark = px, liq = l,
                 val = value_of s px, upnl = upnl_of s en px, opened_at = tbl' k\<rparr>))"

fun loop_rows :: "env \<Rightarrow> string \<Rightarrow> (string \<rightharpoonup> string) \<Rightarrow> string list \<Rightarrow>
    (string \<rightharpoonup> string) \<times> row list" where
  "loop_rows e c tbl [] = (tbl, [])"
| "loop_rows e c tbl (a # as) =
     (let (tbl1, r) = loop_row e c tbl a;
          (tbl2, rs) = loop_rows e c tbl1 as
      in (tbl2, r # rs))"

subsection \<open>Consensus detection\<close>

text \<open>\<^verbatim>\<open>signals_to_send\<close> of \<^verbatim>\<open>loop\<close>: the rows of each side, a signal for the long side
  when its count reaches the threshold, then one for the short side.\<close>

definition side_rows :: "side \<Rightarrow> row list \<Rightarrow> row list" where
  "side_rows s rows = filter (\<lambda>r. side r = Some s) rows"

definition mk_signal :: "string \<Rightarrow> side \<Rightarrow> int \<Rightarrow> bool \<Rightarrow> string \<Rightarrow> row list \<Rightarrow> signal" where
  "mk_signal c s consensus usep t rows =
     \<lparr>coin = c, sig_side = s, sig_count = length (side_rows s rows), threshold = consensus,
      ts = t, sig_use_positions = usep, wallet_rows = side_rows s rows\<rparr>"

definition signals_to_send :: "string \<Rightarrow> int \<Rightarrow> bool \<Rightarrow> string \<Rightarrow> row list \<Rightarrow> signal list" where
  "signals_to_send c consensus usep t rows =
     (if int (length (side_rows Long rows)) \<ge> consensus
      then [mk_signal c Long consensus usep t rows] else []) @
     (if int (length (side_rows Short rows)) \<ge> consensus
      then [mk_signal c Short consensus usep t rows] else [])"

subsection \<open>Signal fingerprints and deduplication\<close>

text \<open>\<^verbatim>\<open>round(x, 4)\<close>: to the nearest multiple of \<open>1/10000\<close>, a tie to the even one.\<close>

definition round4_units :: "rat \<Rightarrow> int" where
  "round4_units x =
     (let y = x * 10000; f = \<lfloor>y\<rfloor>; d = y - of_int f
      in if d < 1 / 2 then f else if d > 1 / 2 then f + 1 else if even f then f else f + 1)"

definition round4 :: "rat \<Rightarrow> rat" where
  "round4 x = of_int (round4_units x) / 10000"

text \<open>\<^verbatim>\<open>str(v)\<close> of a float \<open>v\<close> that is a non-negative multiple of \<open>1/10000\<close>: the integer
  part, a point, and the four decimals without their trailing zeros (one digit at
  least). Python prints this form for values below \<open>10\<^sup>1\<^sup>6\<close>.\<close>

definition frac_str :: "nat \<Rightarrow> string" where
  "frac_str m =
     (let ds = [digit_char (m div 1000), digit_char (m div 100), digit_char (m div 10),
                digit_char m];
          t = rev (dropWhile (\<lambda>c. c = CHR ''0'') (rev ds))
      in if t = [] then ''0'' else t)"

definition str_float :: "rat \<Rightarrow> string" where
  "str_float v =
     (let n = nat \<lfloor>v * 10000\<rfloor>
      in str_nat (n div 10000) @ ''.'' @ frac_str (n mod 10000))"

text \<open>\<^verbatim>\<open>_get_signal_key\<close>.\<close>

definition wallet_entry :: "row \<Rightarrow> string option" where
  "wallet_entry r =
     (case szi r of
        None \<Rightarrow> None
      | Some s \<Rightarrow>
          if \<bar>s\<bar> > 1 / 10000 then Some (addr r @ '':'' @ str_float (round4 \<bar>s\<bar>)) else None)"

definition wallet_data :: "row list \<Rightarrow> string list" where
  "wallet_data rows = List.map_filter wallet_entry rows"

definition get_signal_key :: "signal \<Rightarrow> string" where
  "get_signal_key g =
     coin g @ '':'' @ side_str (sig_side g) @ '':'' @
     str_nat (length (wallet_data (wallet_rows g))) @ '':'' @
     join '','' (sort (wallet_data (wallet_rows g)))"

text \<open>\<^verbatim>\<open>_has_signal_changed\<close>, called with the key \<^verbatim>\<open>f"{coin}_{signal['side']}"\<close>.\<close>

definition has_signal_changed :: "engine \<Rightarrow> string \<Rightarrow> signal \<Rightarrow> bool" where
  "has_signal_changed st k g =
     (case last_signals st k of None \<Rightarrow> True | Some old \<Rightarrow> get_signal_key g \<noteq> old)"

definition dedup_key :: "string \<Rightarrow> side \<Rightarrow> string" where
  "dedup_key c s = c @ ''_'' @ side_str s"

text \<open>The body of \<^verbatim>\<open>for signal in signals_to_send\<close>: a changed signal stores its
  fingerprint and is sent to the websocket clients and to Telegram; an unchanged one
  is only logged. The result is the new state and whether the signal was sent.\<close>

definition process_signal :: "string \<Rightarrow> engine \<Rightarrow> signal \<Rightarrow> engine \<times> bool" where
  "process_signal c st g =
     (let k = dedup_key c (sig_side g)
      in if has_signal_changed st k g
         then (st\<lparr>last_signals := (last_signals st)(k \<mapsto> get_signal_key g)\<rparr>, True)
         else (st, False))"

fun process_signals :: "string \<Rightarrow> engine \<Rightarrow> signal list \<Rightarrow> engine \<times> signal list" where
  "process_signals c st [] = (st, [])"
| "process_signals c st (g # gs) =
     (let (st1, sent) = process_signal c st g;
          (st2, out) = process_signals c st1 gs
      in (st2, if sent then g # out else out))"

subsection \<open>The poll cycle\<close>

text \<open>The body of \<^verbatim>\<open>for coin in coins\<close>, with the values \<^verbatim>\<open>loop\<close> read from the
  configuration at the start of the cycle; the result is the new state and the
  signals sent, in the order they were sent.\<close>

definition process_coin :: "env \<Rightarrow> string list \<Rightarrow> int \<Rightarrow> bool \<Rightarrow> engine \<Rightarrow> string \<Rightarrow>
    engine \<times> signal list" where
  "process_coin e ws consensus usep st c =
     (let (tbl, rows) = loop_rows e c (position_timestamps st) ws;
          st1 = st\<lparr>position_timestamps := tbl,
                   last_positions := (last_positions st)(c \<mapsto> rows)\<rparr>
      in process_signals c st1 (signals_to_send c consensus usep (now e) rows))"

fun process_coins :: "env \<Rightarrow> string list \<Rightarrow> int \<Rightarrow> bool \<Rightarrow> engine \<Rightarrow> string list \<Rightarrow>
    engine \<times> signal list" where
  "process_coins e ws consensus usep st [] = (st, [])"
| "process_coins e ws consensus usep st (c # cs) =
     (let (st1, out1) = process_coin e ws consensus usep st c;
          (st2, out2) = process_coins e ws consensus usep st1 cs
      in (st2, out1 @ out2))"

text \<open>One iteration of \<^verbatim>\<open>while self.running\<close> in \<^verbatim>\<open>loop\<close> (the sleep left out): nothing
  happens without wallets; otherwise the force flag is cleared and the coins are
  processed in the order of the configuration.\<close>

definition poll_cycle :: "env \<Rightarrow> engine \<Rightarrow> engine \<times> signal list" where
  "poll_cycle e st =
     (let config = cfg st; ws = wallets config
      in if ws = [] then (st, [])
         else process_coins e ws (consensus_of config) (use_positions config)
                (st\<lparr>force_check_flag := False\<rparr>) (coins_of config))"

subsection \<open>Telegram commands\<close>

text \<open>\<^verbatim>\<open>int(s)\<close> of a string without whitespace: an optional sign, then decimal digits,
  where single underscores may stand between digits.\<close>

definition is_digit :: "char \<Rightarrow> bool" where
  "is_digit c = (c \<in> set ''0123456789'')"

definition digit_val :: "char \<Rightarrow> nat" where
  "digit_val c =
     (case map_of (zip ''0123456789'' [0, 1, 2, 3, 4, 5, 6, 7, 8, 9]) c of
        Some d \<Rightarrow> d | None \<Rightarrow> 0)"

fun int_digits :: "nat \<Rightarrow> string \<Rightarrow> nat option" where
  "int_digits acc [] = Some acc"
| "int_digits acc [c] = (if is_digit c then Some (10 * acc + digit_val c) else None)"
| "int_digits acc (c # d # ds) =
     (if is_digit c then int_digits (10 * acc + digit_val c) (d # ds)
      else if c = CHR ''_'' \<and> is_digit d then int_digits (10 * acc + digit_val d) ds
      else None)"

definition py_nat :: "string \<Rightarrow> nat option" where
  "py_nat s =
     (case s of [] \<Rightarrow> None
      | c # cs \<Rightarrow> if is_digit c then int_digits (digit_val c) cs else None)"

definition py_int :: "string \<Rightarrow> int option" where
  "py_int s =
     (case s of
        [] \<Rightarrow> None
      | c # cs \<Rightarrow>
          if c = CHR ''-'' then map_option (\<lambda>n. - int n) (py_nat cs)
          else if c = CHR ''+'' then map_option int (py_nat cs)
          else map_option int (py_nat s))"

text \<open>The messages of the command processor and of \<^verbatim>\<open>send_stats_report\<close>.\<close>

record wallet_info =
  wi_addr :: string
  wi_szi :: rat
  wi_entry :: "rat option"
  wi_mark :: "rat option"
  wi_upnl :: rat

record coin_stats =
  cs_coin :: string
  cs_long :: "wallet_info list"
  cs_short :: "wallet_info list"
  cs_neutral :: "string list"
  cs_total_long_pnl :: "rat option"
  cs_total_short_pnl :: "rat option"

datatype reply =
    HelpMsg
  | ExamplesMsg
  | AddWalletUsage
  | WalletInvalid string
  | WalletExists string
  | WalletAdded string nat
  | RemoveWalletUsage
  | WalletNotFound string
  | WalletRemoved string nat
  | AddCoinUsage
  | CoinExists string
  | CoinAdded string "string list"
  | RemoveCoinUsage
  | CoinNotFound string
  | CoinRemoved string "string list"
  | ConsensusInvalid
  | ConsensusUpdated int int
  | IntervalInvalid
  | IntervalUpdated int int
  | Reloading
  | ReloadDone nat
  | LastQuerying
  | LastNoWallets
  | SignalMsg signal
  | LastUpdated
  | LastNoConsensus int
  | StatusMsg nat "string list" int int
  | ConfigMsg "string list" "string list" int int bool
  | StatsGenerating
  | StatsNoWallets
  | StatsMsg "coin_stats list"
  | NotRecognized

text \<open>\<^verbatim>\<open>text_original.split(maxsplit=1)[1].strip() if len(text_original.split()) > 1
  else ""\<close>. With more than one run the split has two parts, so the last case is
  never taken.\<close>

definition command_arg :: "string \<Rightarrow> string" where
  "command_arg t =
     (if length (split_ws t) > 1
      then (case split_max1 t of [f, r] \<Rightarrow> strip r | _ \<Rightarrow> [])
      else [])"

text \<open>\<^verbatim>\<open>int(text_original.split()[1])\<close>; \<open>None\<close> is the \<^verbatim>\<open>IndexError\<close> or
  \<^verbatim>\<open>ValueError\<close> that the handler catches.\<close>

definition int_arg :: "string \<Rightarrow> int option" where
  "int_arg t = (case split_ws t of f # a # r \<Rightarrow> py_int a | _ \<Rightarrow> None)"

definition add_wallet :: "string \<Rightarrow> engine \<Rightarrow> engine \<times> reply list" where
  "add_wallet text_original st =
     (let wallet = command_arg text_original
      in if wallet = [] then (st, [AddWalletUsage])
         else if \<not> wallet_re_match wallet then (st, [WalletInvalid wallet])
         else let ws = wallets (cfg st)
              in if wallet \<in> set ws then (st, [WalletExists wallet])
                 else (st\<lparr>cfg := (cfg st)\<lparr>wallets := ws @ [wallet]\<rparr>\<rparr>,
                       [WalletAdded wallet (length (ws @ [wallet]))]))"

text \<open>\<^verbatim>\<open>/remove_wallet\<close>: the first stored wallet whose lower-cased form starts with the
  lower-cased argument; \<^verbatim>\<open>if not wallet_to_remove\<close> also rejects an empty stored
  wallet.\<close>

definition remove_wallet :: "string \<Rightarrow> engine \<Rightarrow> engine \<times> reply list" where
  "remove_wallet text_original st =
     (let wallet = command_arg text_original
      in if wallet = [] then (st, [RemoveWalletUsage])
         else let ws = wallets (cfg st)
              in (case find (\<lambda>w. lower w = lower wallet \<or> startswith (lower w) (lower wallet)) ws of
                    None \<Rightarrow> (st, [WalletNotFound wallet])
                  | Some w \<Rightarrow>
                      if w = [] then (st, [WalletNotFound wallet])
                      else (st\<lparr>cfg := (cfg st)\<lparr>wallets := remove1 w ws\<rparr>\<rparr>,
                            [WalletRemoved w (length (remove1 w ws))])))"

definition symbols_or_empty :: "config \<Rightarrow> string list" where
  "symbols_or_empty c = (case symbols c of None \<Rightarrow> [] | Some cs \<Rightarrow> cs)"

definition add_coin :: "string \<Rightarrow> engine \<Rightarrow> engine \<times> reply list" where
  "add_coin text_original st =
     (let c = upper (command_arg text_original)
      in if c = [] then (st, [AddCoinUsage])
         else let cs = symbols_or_empty (cfg st)
              in if c \<in> set cs then (st, [CoinExists c])
                 else (st\<lparr>cfg := (cfg st)\<lparr>symbols := Some (cs @ [c])\<rparr>\<rparr>,
                       [CoinAdded c (cs @ [c])]))"

definition remove_coin :: "string \<Rightarrow> engine \<Rightarrow> engine \<times> reply list" where
  "remove_coin text_original st =
     (let c = upper (command_arg text_original)
      in if c = [] then (st, [RemoveCoinUsage])
         else let cs = symbols_or_empty (cfg st)
              in if c \<notin> set cs then (st, [CoinNotFound c])
                 else (st\<lparr>cfg := (cfg st)\<lparr>symbols := Some (remove1 c cs)\<rparr>\<rparr>,
                       [CoinRemoved c (remove1 c cs)]))"

definition set_consensus :: "string \<Rightarrow> engine \<Rightarrow> engine \<times> reply list" where
  "set_consensus text_original st =
     (case int_arg text_original of
        None \<Rightarrow> (st, [ConsensusInvalid])
      | Some v \<Rightarrow>
          if v < 1 then (st, [ConsensusInvalid])
          else (st\<lparr>cfg := (cfg st)\<lparr>consensus_count := Some v\<rparr>\<rparr>,
                [ConsensusUpdated (consensus_of (cfg st)) v]))"

definition set_interval :: "string \<Rightarrow> engine \<Rightarrow> engine \<times> reply list" where
  "set_interval text_original st =
     (case int_arg text_original of
        None \<Rightarrow> (st, [IntervalInvalid])
      | Some v \<Rightarrow>
          if v < 10 \<or> v > 600 then (st, [IntervalInvalid])
          else (st\<lparr>cfg := (cfg st)\<lparr>poll_seconds := Some v\<rparr>\<rparr>,
                [IntervalUpdated (poll_seconds_of (cfg st)) v]))"

text \<open>\<^verbatim>\<open>/reload\<close>: \<^verbatim>\<open>engine.force_check()\<close> sets the flag the poll loop reads.\<close>

definition reload :: "engine \<Rightarrow> engine \<times> reply list" where
  "reload st =
     (st\<lparr>force_check_flag := True\<rparr>, [Reloading, ReloadDone (length (wallets (cfg st)))])"

text \<open>The row of one wallet in the \<^verbatim>\<open>/last\<close> handler: as in \<^verbatim>\<open>loop\<close>, but the timestamp
  table is only read.\<close>

definition last_row :: "env \<Rightarrow> string \<Rightarrow> (string \<rightharpoonup> string) \<Rightarrow> string \<Rightarrow> row" where
  "last_row e c tbl a =
     (let det = extract_pos_details (asset_positions e a) c;
          s = d_szi det; en = d_entryPx det; l = d_liqPx det;
          px = mids e (upper c);
          sd = side_of s
      in \<lparr>addr = a, szi = s, side = sd, entry = en, mark = px, liq = l,
          val = value_of s px, upnl = upnl_of s en px, opened_at = tbl (pos_key a c sd)\<rparr>)"

definition last_coin :: "env \<Rightarrow> engine \<Rightarrow> string list \<Rightarrow> int \<Rightarrow> string \<Rightarrow> signal list" where
  "last_coin e st ws consensus c =
     signals_to_send c consensus True (now e) (map (last_row e c (position_timestamps st)) ws)"

definition last_cmd :: "env \<Rightarrow> engine \<Rightarrow> engine \<times> reply list" where
  "last_cmd e st =
     (let config = cfg st; ws = wallets config; consensus = consensus_of config
      in if ws = [] then (st, [LastQuerying, LastNoWallets])
         else let gs = concat (map (last_coin e st ws consensus) (coins_of config))
              in (st, [LastQuerying] @ map SignalMsg gs @
                      [if gs \<noteq> [] then LastUpdated else LastNoConsensus consensus]))"

definition status_cmd :: "engine \<Rightarrow> engine \<times> reply list" where
  "status_cmd st =
     (let config = cfg st
      in (st, [StatusMsg (length (wallets config)) (coins_of config) (consensus_of config)
                 (poll_seconds_of config)]))"

definition config_cmd :: "engine \<Rightarrow> engine \<times> reply list" where
  "config_cmd st =
     (let config = cfg st
      in (st, [ConfigMsg (wallets config) (symbols_or_empty config) (consensus_of config)
                 (poll_seconds_of config) (use_positions config)]))"

text \<open>\<^verbatim>\<open>send_stats_report\<close>. Its unrealized PnL is
  \<^verbatim>\<open>((px - entry) * szi) if (entry and px) else 0\<close>: a float is true when it is present
  and not zero.\<close>

definition truthy :: "rat option \<Rightarrow> bool" where
  "truthy x = (case x of None \<Rightarrow> False | Some v \<Rightarrow> v \<noteq> 0)"

definition stats_upnl :: "rat \<Rightarrow> rat option \<Rightarrow> rat option \<Rightarrow> rat" where
  "stats_upnl s en px =
     (case en of
        None \<Rightarrow> 0
      | Some e \<Rightarrow>
         (case px of None \<Rightarrow> 0 | Some p \<Rightarrow> if e \<noteq> 0 \<and> p \<noteq> 0 then (p - e) * s else 0))"

fun stats_wallets :: "env \<Rightarrow> string \<Rightarrow> string list \<Rightarrow>
    wallet_info list \<times> wallet_info list \<times> string list" where
  "stats_wallets e c [] = ([], [], [])"
| "stats_wallets e c (a # as) =
     (let (ls, ss, ns) = stats_wallets e c as;
          det = extract_pos_details (asset_positions e a) c
      in case d_szi det of
           None \<Rightarrow> (ls, ss, a # ns)
         | Some s \<Rightarrow>
             if \<bar>s\<bar> > 1 / 10000
             then (let px = mids e (upper c);
                       info = \<lparr>wi_addr = a, wi_szi = s, wi_entry = d_entryPx det, wi_mark = px,
                               wi_upnl = stats_upnl s (d_entryPx det) px\<rparr>
                   in if s > 0 then (info # ls, ss, ns) else (ls, info # ss, ns))
             else (ls, ss, a # ns))"

definition stats_coin :: "env \<Rightarrow> string list \<Rightarrow> string \<Rightarrow> coin_stats" where
  "stats_coin e ws c =
     (let (ls, ss, ns) = stats_wallets e c ws
      in \<lparr>cs_coin = c, cs_long = ls, cs_short = ss, cs_neutral = ns,
          cs_total_long_pnl = (if ls = [] then None else Some (sum_list (map wi_upnl ls))),
          cs_total_short_pnl = (if ss = [] then None else Some (sum_list (map wi_upnl ss)))\<rparr>)"

definition send_stats_report :: "env \<Rightarrow> engine \<Rightarrow> reply list" where
  "send_stats_report e st =
     (let config = cfg st; ws = wallets config
      in if ws = [] then [StatsNoWallets]
         else [StatsMsg (map (stats_coin e ws) (coins_of config))])"

definition stats_cmd :: "env \<Rightarrow> engine \<Rightarrow> engine \<times> reply list" where
  "stats_cmd e st = (st, StatsGenerating # send_stats_report e st)"

text \<open>\<^verbatim>\<open>process_telegram_command\<close>: the chain of tests in the order of the source. The
  first eight groups test \<^verbatim>\<open>text_lower\<close>; \<^verbatim>\<open>/last\<close>, \<^verbatim>\<open>/latest\<close>, \<^verbatim>\<open>/status\<close>,
  \<^verbatim>\<open>/config\<close> and \<^verbatim>\<open>/stats\<close> test \<^verbatim>\<open>text\<close> itself.\<close>

definition process_telegram_command :: "string \<Rightarrow> env \<Rightarrow> engine \<Rightarrow> engine \<times> reply list" where
  "process_telegram_command text e st =
     (let text_lower = lower (strip text); text_original = strip text
      in if text_lower = ''/start'' \<or> text_lower = ''/help'' then (st, [HelpMsg])
         else if text_lower = ''/commands'' \<or> text_lower = ''/ejemplos'' \<or>
                 text_lower = ''/examples'' then (st, [ExamplesMsg])
         else if startswith text_lower ''/add_wallet '' then add_wallet text_original st
         else if startswith text_lower ''/remove_wallet '' then remove_wallet text_original st
         else if startswith text_lower ''/add_coin '' then add_coin text_original st
         else if startswith text_lower ''/remove_coin '' then remove_coin text_original st
         else if startswith text_lower ''/set_consensus '' then set_consensus text_original st
         else if startswith text_lower ''/set_interval '' then set_interval text_original st
         else if text_lower = ''/reload'' \<or> text_lower = ''/refresh'' \<or>
                 text_lower = ''/update'' then reload st
         else if text = ''/last'' \<or> text = ''/latest'' then last_cmd e st
         else if text = ''/status'' then status_cmd st
         else if text = ''/config'' then config_cmd st
         else if text = ''/stats'' then stats_cmd e st
         else (st, [NotRecognized]))"

subsection \<open>The snapshot of the web interface\<close>

text \<open>\<^verbatim>\<open>compute_last_snapshot\<close>: the side, the value and the PnL test the truth of the
  floats (\<^verbatim>\<open>if szi and px\<close>), and the rows have no \<^verbatim>\<open>opened_at\<close>.\<close>

definition snapshot_row :: "env \<Rightarrow> string \<Rightarrow> string \<Rightarrow> row" where
  "snapshot_row e c a =
     (let det = extract_pos_details (asset_positions e a) c;
          s = d_szi det; en = d_entryPx det; l = d_liqPx det;
          px = mids e (upper c)
      in \<lparr>addr = a, szi = s, side = (if truthy s then side_of s else None),
          entry = en, mark = px, liq = l,
          val = (if truthy s \<and> truthy px then value_of s px else None),
          upnl = (if truthy s \<and> truthy en \<and> truthy px then upnl_of s en px else None),
          opened_at = None\<rparr>)"

definition compute_last_snapshot :: "env \<Rightarrow> engine \<Rightarrow> signal list" where
  "compute_last_snapshot e st =
     (let config = cfg st; ws = wallets config; consensus = consensus_of config
      in if ws = [] then []
         else concat (map (\<lambda>c. signals_to_send c consensus True (now e)
                                  (map (snapshot_row e c) ws)) (coins_of config)))"

subsection \<open>The HTTP endpoint \<^verbatim>\<open>PATCH /config\<close>\<close>

text \<open>A JSON value of the request body. Reading a float out of a string
  (\<^verbatim>\<open>float("1e3")\<close>) is the work of the Python runtime: the functions below take it as
  the parameter \<open>pf\<close>, with \<open>None\<close> for a string that \<^verbatim>\<open>float\<close> refuses.\<close>

datatype jv = JNull | JBool bool | JNum rat | JStr string | JList "jv list"
  | JObj "(string \<times> jv) list"

datatype py_error = TypeError | AttributeError

definition py_float :: "(string \<Rightarrow> rat option) \<Rightarrow> jv \<Rightarrow> rat option" where
  "py_float pf x =
     (case x of JNum r \<Rightarrow> Some r | JBool b \<Rightarrow> Some (if b then 1 else 0) | JStr s \<Rightarrow> pf s
      | _ \<Rightarrow> None)"

text \<open>\<^verbatim>\<open>int(r)\<close> of a float: towards zero.\<close>

definition trunc :: "rat \<Rightarrow> int" where
  "trunc r = (if r \<ge> 0 then \<lfloor>r\<rfloor> else \<lceil>r\<rceil>)"

definition to_int :: "(string \<Rightarrow> rat option) \<Rightarrow> jv \<Rightarrow> int \<Rightarrow> int" where
  "to_int pf x d = (case py_float pf x of None \<Rightarrow> d | Some r \<Rightarrow> trunc r)"

definition to_float :: "(string \<Rightarrow> rat option) \<Rightarrow> jv \<Rightarrow> rat \<Rightarrow> rat" where
  "to_float pf x d = (case py_float pf x of None \<Rightarrow> d | Some r \<Rightarrow> r)"

definition to_bool :: "jv \<Rightarrow> bool" where
  "to_bool x =
     (case x of
        JStr s \<Rightarrow> lower (strip s) \<notin> set [''0'', ''false'', ''no'', ''off'', []]
      | JNull \<Rightarrow> False | JBool b \<Rightarrow> b | JNum r \<Rightarrow> r \<noteq> 0 | JList xs \<Rightarrow> xs \<noteq> []
      | JObj kvs \<Rightarrow> kvs \<noteq> [])"

text \<open>\<^verbatim>\<open>s.split(",")\<close>.\<close>

fun split_on :: "char \<Rightarrow> string \<Rightarrow> string list" where
  "split_on sep [] = [[]]"
| "split_on sep (c # cs) =
     (if c = sep then [] # split_on sep cs
      else (case split_on sep cs of [] \<Rightarrow> [[c]] | x # xs \<Rightarrow> (c # x) # xs))"

text \<open>The list a \<^verbatim>\<open>wallets\<close> or \<^verbatim>\<open>symbols\<close> value stands for: a string is split at its
  commas, anything but a list is the empty list. A list element that is not a string
  raises in the comprehension that follows (\<^verbatim>\<open>_WALLET_RE.match(w)\<close>, \<^verbatim>\<open>s.upper()\<close>).\<close>

fun strings_of :: "py_error \<Rightarrow> jv list \<Rightarrow> py_error + string list" where
  "strings_of err [] = Inr []"
| "strings_of err (x # xs) =
     (case x of
        JStr s \<Rightarrow> (case strings_of err xs of Inl e \<Rightarrow> Inl e | Inr ss \<Rightarrow> Inr (s # ss))
      | _ \<Rightarrow> Inl err)"

definition list_value :: "py_error \<Rightarrow> jv \<Rightarrow> py_error + string list" where
  "list_value err v =
     (case v of
        JStr s \<Rightarrow> Inr (filter (\<lambda>x. x \<noteq> []) (map strip (split_on CHR '','' s)))
      | JList xs \<Rightarrow> strings_of err xs
      | _ \<Rightarrow> Inr [])"

definition int_or_zero :: "int option \<Rightarrow> int" where
  "int_or_zero x = (case x of None \<Rightarrow> 0 | Some n \<Rightarrow> n)"

text \<open>One turn of \<^verbatim>\<open>for k, v in patch.items()\<close>: \<open>current\<close> is the configuration before
  the request, \<open>new_cfg\<close> its copy under construction.\<close>

definition patch_field :: "(string \<Rightarrow> rat option) \<Rightarrow> config \<Rightarrow> config \<Rightarrow> string \<times> jv \<Rightarrow>
    py_error + config" where
  "patch_field pf current new_cfg kv =
     (let k = fst kv; v = snd kv
      in if k = ''wallets''
         then (case list_value TypeError v of
                 Inl e \<Rightarrow> Inl e
               | Inr ws \<Rightarrow> Inr (new_cfg\<lparr>wallets := filter wallet_re_match ws\<rparr>))
         else if k = ''symbols''
         then (case list_value AttributeError v of
                 Inl e \<Rightarrow> Inl e
               | Inr cs \<Rightarrow> Inr (new_cfg\<lparr>symbols := Some (map upper cs)\<rparr>))
         else if k = ''window_minutes''
         then Inr (new_cfg\<lparr>window_minutes :=
                     Some (to_int pf v (int_or_zero (window_minutes current)))\<rparr>)
         else if k = ''poll_seconds''
         then Inr (new_cfg\<lparr>poll_seconds :=
                     Some (to_int pf v (int_or_zero (poll_seconds current)))\<rparr>)
         else if k = ''cooldown_minutes''
         then Inr (new_cfg\<lparr>cooldown_minutes :=
                     Some (to_int pf v (int_or_zero (cooldown_minutes current)))\<rparr>)
         else if k = ''consensus_count''
         then Inr (new_cfg\<lparr>consensus_count :=
                     Some (to_int pf v (int_or_zero (consensus_count current)))\<rparr>)
         else if k = ''min_nocional_usd''
         then Inr (new_cfg\<lparr>min_nocional_usd :=
                     Some (to_float pf v (case min_nocional_usd current of
                                            None \<Rightarrow> 0 | Some r \<Rightarrow> r))\<rparr>)
         else if k = ''use_positions''
         then Inr (new_cfg\<lparr>use_positions := to_bool v\<rparr>)
         else Inr new_cfg)"

fun patch_fields :: "(string \<Rightarrow> rat option) \<Rightarrow> config \<Rightarrow> config \<Rightarrow> (string \<times> jv) list \<Rightarrow>
    py_error + config" where
  "patch_fields pf current new_cfg [] = Inr new_cfg"
| "patch_fields pf current new_cfg (kv # kvs) =
     (case patch_field pf current new_cfg kv of
        Inl e \<Rightarrow> Inl e
      | Inr n \<Rightarrow> patch_fields pf current n kvs)"

text \<open>\<^verbatim>\<open>patch_config\<close>: an exception leaves the configuration as it was; otherwise the
  new configuration replaces it (\<^verbatim>\<open>engine.cfg = cfg\<close>).\<close>

definition patch_config :: "(string \<Rightarrow> rat option) \<Rightarrow> (string \<times> jv) list \<Rightarrow> engine \<Rightarrow>
    engine \<times> (py_error + config)" where
  "patch_config pf patch st =
     (case patch_fields pf (cfg st) (cfg st) patch of
        Inl e \<Rightarrow> (st, Inl e)
      | Inr n \<Rightarrow> (st\<lparr>cfg := n\<rparr>, Inr n))"

subsection \<open>Executions\<close>

text \<open>The engine is driven by poll cycles, Telegram commands of the configured chat
  and HTTP patches, one at a time. A step returns the new state and the alerts the
  poll loop dispatched in it.\<close>

datatype event = Poll env | Telegram string env | HttpPatch "(string \<times> jv) list"

definition step :: "(string \<Rightarrow> rat option) \<Rightarrow> event \<Rightarrow> engine \<Rightarrow> engine \<times> signal list" where
  "step pf ev st =
     (case ev of
        Poll e \<Rightarrow> poll_cycle e st
      | Telegram text e \<Rightarrow> (fst (process_telegram_command text e st), [])
      | HttpPatch patch \<Rightarrow> (fst (patch_config pf patch st), []))"

fun run :: "(string \<Rightarrow> rat option) \<Rightarrow> event list \<Rightarrow> engine \<Rightarrow> engine" where
  "run pf [] st = st"
| "run pf (ev # evs) st = run pf evs (fst (step pf ev st))"

subsection \<open>Example data\<close>

text \<open>The scenario of the specification: the wallets \<open>A\<close> and \<open>B\<close> are long one
  \<open>ETH\<close> entered at 2000, \<open>C\<close> is short, and the mid price is 2100.\<close>

definition ex_position :: "string \<Rightarrow> rat \<Rightarrow> asset_position" where
  "ex_position c s =
     \<lparr>ap_coin = c, ap_szi = Some s, ap_entryPx = Some 2000, ap_liquidationPx = None,
      ap_liqPx = None\<rparr>"

definition ex_env :: env where
  "ex_env =
     \<lparr>mids = [''ETH'' \<mapsto> 2100],
      asset_positions =
        (\<lambda>a. if a = ''A'' \<or> a = ''B'' then [ex_position ''ETH'' 1]
             else if a = ''C'' then [ex_position ''ETH'' (- 1)] else []),
      now = ''2025-01-01 00:00:00''\<rparr>"

definition ex_cfg :: config where
  "ex_cfg =
     \<lparr>wallets = [''A'', ''B'', ''C''], symbols = Some [''ETH''], window_minutes = Some 5,
      min_nocional_usd = Some 10000, poll_seconds = Some 12, cooldown_minutes = Some 10,
      consensus_count = Some 2, use_positions = True\<rparr>"

definition ex_engine :: engine where
  "ex_engine =
     \<lparr>cfg = ex_cfg, last_signals = Map.empty, force_check_flag = False,
      last_positions = Map.empty, position_timestamps = Map.empty\<rparr>"

definition ex_rows :: "row list" where
  "ex_rows = map (last_row ex_env ''ETH'' Map.empty) [''A'', ''B'', ''C'']"

text \<open>The address of the bot's own help text, its lower-case form, and the same
  address one character short.\<close>

definition ex_addr :: string where
  "ex_addr = ''0xc2a30212a8DdAc9e123944d6e29FADdCe994E5f2''"

definition ex_addr_lower :: string where
  "ex_addr_lower = ''0xc2a30212a8ddac9e123944d6e29faddce994e5f2''"

definition ex_addr_short :: string where
  "ex_addr_short = ''0xc2a30212a8DdAc9e123944d6e29FADdCe994E5f''"

definition ex_wallets :: "string list \<Rightarrow> engine" where
  "ex_wallets ws = ex_engine\<lparr>cfg := ex_cfg\<lparr>wallets := ws\<rparr>\<rparr>"

subsection \<open>Theorems\<close>

text \<open>
  C1. For every list of rows of one symbol and every threshold, the poll cycle's
  \<open>signals_to_send\<close> holds a signal of side \<open>S\<close> exactly when the number of rows of side
  \<open>S\<close> reaches the threshold, that signal carries exactly those rows and their count,
  and when both sides reach it the list is the long signal followed by the short one.
\<close>

theorem signal_iff_count:
  "((\<exists>g \<in> set (signals_to_send c T usep t rows). sig_side g = S) \<longleftrightarrow>
      T \<le> int (length (filter (\<lambda>r. side r = Some S) rows))) \<and>
   (\<forall>g \<in> set (signals_to_send c T usep t rows).
      coin g = c \<and> sig_count g = length (filter (\<lambda>r. side r = Some (sig_side g)) rows) \<and>
      wallet_rows g = filter (\<lambda>r. side r = Some (sig_side g)) rows) \<and>
   (T \<le> int (length (filter (\<lambda>r. side r = Some Long) rows)) \<and>
    T \<le> int (length (filter (\<lambda>r. side r = Some Short) rows)) \<longrightarrow>
      signals_to_send c T usep t rows =
        [mk_signal c Long T usep t rows, mk_signal c Short T usep t rows])"
  by (cases S) (auto simp: signals_to_send_def mk_signal_def side_rows_def)

lemma ex_rows_sides: "map side ex_rows = [Some Long, Some Long, Some Short]"
  by (simp add: ex_rows_def last_row_def ex_env_def ex_position_def side_of_def upper_def
      upper_char_def Let_def)

lemma ex_rows_counts:
  "length (filter (\<lambda>r. side r = Some Long) ex_rows) = 2"
  "length (filter (\<lambda>r. side r = Some Short) ex_rows) = 1"
  using ex_rows_sides by (auto simp: ex_rows_def)

theorem signal_iff_count_witness:
  "(\<exists>g \<in> set (signals_to_send ''ETH'' 2 True ''t'' ex_rows). sig_side g = Long) \<and>
   \<not> (\<exists>g \<in> set (signals_to_send ''ETH'' 2 True ''t'' ex_rows). sig_side g = Short) \<and>
   signals_to_send ''ETH'' 1 True ''t'' ex_rows =
     [mk_signal ''ETH'' Long 1 True ''t'' ex_rows, mk_signal ''ETH'' Short 1 True ''t'' ex_rows]"
proof -
  note a = signal_iff_count [of "''ETH''" 2 True "''t''" ex_rows Long, unfolded ex_rows_counts]
  note b = signal_iff_count [of "''ETH''" 2 True "''t''" ex_rows Short, unfolded ex_rows_counts]
  note c = signal_iff_count [of "''ETH''" 1 True "''t''" ex_rows Long, unfolded ex_rows_counts]
  have 1: "\<exists>g \<in> set (signals_to_send ''ETH'' 2 True ''t'' ex_rows). sig_side g = Long"
    using a by simp
  have 2: "\<not> (\<exists>g \<in> set (signals_to_send ''ETH'' 2 True ''t'' ex_rows). sig_side g = Short)"
    using b by simp
  have 3: "signals_to_send ''ETH'' 1 True ''t'' ex_rows =
     [mk_signal ''ETH'' Long 1 True ''t'' ex_rows, mk_signal ''ETH'' Short 1 True ''t'' ex_rows]"
    using c by simp
  from 1 2 3 show ?thesis by blast
qed

lemmas cmd_eval = process_telegram_command_def lower_def strip_def lower_char_def is_space_def
  startswith_def

text \<open>
  C7 (fails on the code). The command name is not matched case-insensitively for
  \<^verbatim>\<open>/last\<close>, \<^verbatim>\<open>/latest\<close>, \<^verbatim>\<open>/status\<close>, \<^verbatim>\<open>/config\<close> and \<^verbatim>\<open>/stats\<close>: the source
  compares \<^verbatim>\<open>text\<close>, not \<^verbatim>\<open>text_lower\<close>. \<^verbatim>\<open>/STATUS\<close>, \<^verbatim>\<open>/LAST\<close>, \<^verbatim>\<open>/Config\<close> and
  \<^verbatim>\<open>/Stats\<close> get the reply "command not recognized" while their lower-case forms run
  the handlers; \<^verbatim>\<open>/HELP\<close> and \<^verbatim>\<open>/Reload\<close>, tested on \<^verbatim>\<open>text_lower\<close>, behave as their
  lower-case forms.
\<close>

theorem upper_case_commands_not_recognized:
  "process_telegram_command ''/STATUS'' e st = (st, [NotRecognized]) \<and>
   process_telegram_command ''/status'' e st = status_cmd st \<and>
   snd (status_cmd st) \<noteq> [NotRecognized] \<and>
   process_telegram_command ''/LAST'' e st = (st, [NotRecognized]) \<and>
   process_telegram_command ''/last'' e st = last_cmd e st \<and>
   process_telegram_command ''/Config'' e st = (st, [NotRecognized]) \<and>
   process_telegram_command ''/config'' e st = config_cmd st \<and>
   process_telegram_command ''/Stats'' e st = (st, [NotRecognized]) \<and>
   process_telegram_command ''/stats'' e st = stats_cmd e st \<and>
   process_telegram_command ''/HELP'' e st = process_telegram_command ''/help'' e st \<and>
   process_telegram_command ''/Reload'' e st = process_telegram_command ''/reload'' e st"
proof -
  have 1: "process_telegram_command ''/STATUS'' e st = (st, [NotRecognized])"
    by (simp add: cmd_eval)
  have 2: "process_telegram_command ''/status'' e st = status_cmd st"
    by (simp add: cmd_eval)
  have 3: "snd (status_cmd st) \<noteq> [NotRecognized]"
    by (simp add: status_cmd_def Let_def)
  have 4: "process_telegram_command ''/LAST'' e st = (st, [NotRecognized])"
    by (simp add: cmd_eval)
  have 5: "process_telegram_command ''/last'' e st = last_cmd e st"
    by (simp add: cmd_eval)
  have 6: "process_telegram_command ''/Config'' e st = (st, [NotRecognized])"
    by (simp add: cmd_eval)
  have 7: "process_telegram_command ''/config'' e st = config_cmd st"
    by (simp add: cmd_eval)
  have 8: "process_telegram_command ''/Stats'' e st = (st, [NotRecognized])"
    by (simp add: cmd_eval)
  have 9: "process_telegram_command ''/stats'' e st = stats_cmd e st"
    by (simp add: cmd_eval)
  have 10: "process_telegram_command ''/HELP'' e st = process_telegram_command ''/help'' e st"
    by (simp add: cmd_eval)
  have 11: "process_telegram_command ''/Reload'' e st = process_telegram_command ''/reload'' e st"
    by (simp add: cmd_eval)
  from 1 2 3 4 5 6 7 8 9 10 11 show ?thesis by blast
qed

lemmas arg_eval = int_arg_def split_ws_def py_int_def py_nat_def is_digit_def digit_val_def

text \<open>
  C4 (fails on the code). \<^verbatim>\<open>PATCH /config\<close> stores whatever integer the request
  carries: from the example configuration, whose threshold is 2, the body
  \<^verbatim>\<open>{"consensus_count": 0}\<close> is accepted and leaves the threshold 0. The Telegram
  command \<^verbatim>\<open>/set_consensus 0\<close> is refused and changes nothing.
\<close>

theorem patch_config_threshold_zero:
  "consensus_of (cfg ex_engine) = 2 \<and>
   patch_config pf [(''consensus_count'', JNum 0)] ex_engine =
     (ex_engine\<lparr>cfg := ex_cfg\<lparr>consensus_count := Some 0\<rparr>\<rparr>,
      Inr (ex_cfg\<lparr>consensus_count := Some 0\<rparr>)) \<and>
   consensus_of (cfg (fst (patch_config pf [(''consensus_count'', JNum 0)] ex_engine))) = 0 \<and>
   process_telegram_command ''/set_consensus 0'' e ex_engine = (ex_engine, [ConsensusInvalid])"
proof -
  have 1: "consensus_of (cfg ex_engine) = 2"
    by (simp add: consensus_of_def ex_engine_def ex_cfg_def)
  have 2: "patch_config pf [(''consensus_count'', JNum 0)] ex_engine =
     (ex_engine\<lparr>cfg := ex_cfg\<lparr>consensus_count := Some 0\<rparr>\<rparr>,
      Inr (ex_cfg\<lparr>consensus_count := Some 0\<rparr>))"
    by (simp add: patch_config_def patch_field_def to_int_def py_float_def trunc_def
        ex_engine_def)
  have 3: "consensus_of (cfg (fst (patch_config pf [(''consensus_count'', JNum 0)] ex_engine))) = 0"
    by (simp add: 2 consensus_of_def)
  have 4: "process_telegram_command ''/set_consensus 0'' e ex_engine =
      (ex_engine, [ConsensusInvalid])"
    by (simp add: cmd_eval set_consensus_def arg_eval)
  from 1 2 3 4 show ?thesis by blast
qed

text \<open>
  C5 (fails on the code). The rows of \<^verbatim>\<open>loop\<close> and of the \<^verbatim>\<open>/last\<close> handler leave the
  value and the PnL absent when an operand is absent. \<^verbatim>\<open>send_stats_report\<close> does not:
  with no mid price for the coin (here an empty answer of \<^verbatim>\<open>get_all_mids\<close>) the PnL of
  the long wallet \<open>A\<close> is the number 0, where the row of \<^verbatim>\<open>loop\<close> has none. And
  \<^verbatim>\<open>compute_last_snapshot\<close> tests the truth of the floats, so a size that is present
  and zero gives no value where \<^verbatim>\<open>loop\<close> gives \<open>|0| * mark = 0\<close>.
\<close>

theorem stats_report_substitutes_zero:
  "upnl (snd (loop_row (ex_env\<lparr>mids := Map.empty\<rparr>) ''ETH'' Map.empty ''A'')) = None \<and>
   upnl (last_row (ex_env\<lparr>mids := Map.empty\<rparr>) ''ETH'' Map.empty ''A'') = None \<and>
   map wi_upnl (cs_long (stats_coin (ex_env\<lparr>mids := Map.empty\<rparr>) [''A''] ''ETH'')) = [0] \<and>
   map wi_mark (cs_long (stats_coin (ex_env\<lparr>mids := Map.empty\<rparr>) [''A''] ''ETH'')) = [None] \<and>
   val (snd (loop_row (ex_env\<lparr>asset_positions := \<lambda>a. [ex_position ''ETH'' 0]\<rparr>)
          ''ETH'' Map.empty ''A'')) = Some 0 \<and>
   val (snapshot_row (ex_env\<lparr>asset_positions := \<lambda>a. [ex_position ''ETH'' 0]\<rparr>)
          ''ETH'' ''A'') = None"
proof -
  note ev = ex_env_def ex_position_def side_of_def upper_def upper_char_def Let_def
    value_of_def upnl_of_def
  have 1: "upnl (snd (loop_row (ex_env\<lparr>mids := Map.empty\<rparr>) ''ETH'' Map.empty ''A'')) = None"
    by (simp add: loop_row_def ev)
  have 2: "upnl (last_row (ex_env\<lparr>mids := Map.empty\<rparr>) ''ETH'' Map.empty ''A'') = None"
    by (simp add: last_row_def ev)
  have 3: "map wi_upnl (cs_long (stats_coin (ex_env\<lparr>mids := Map.empty\<rparr>) [''A''] ''ETH'')) = [0]"
    by (simp add: stats_coin_def stats_upnl_def ev)
  have 4: "map wi_mark (cs_long (stats_coin (ex_env\<lparr>mids := Map.empty\<rparr>) [''A''] ''ETH'')) = [None]"
    by (simp add: stats_coin_def stats_upnl_def ev)
  have 5: "val (snd (loop_row (ex_env\<lparr>asset_positions := \<lambda>a. [ex_position ''ETH'' 0]\<rparr>)
          ''ETH'' Map.empty ''A'')) = Some 0"
    by (simp add: loop_row_def ev)
  have 6: "val (snapshot_row (ex_env\<lparr>asset_positions := \<lambda>a. [ex_position ''ETH'' 0]\<rparr>)
          ''ETH'' ''A'') = None"
    by (simp add: snapshot_row_def truthy_def ev)
  from 1 2 3 4 5 6 show ?thesis by blast
qed

subsection \<open>Facts about the string functions\<close>

lemma strip_no_trailing: "strip s \<noteq> [] \<Longrightarrow> \<not> is_space (last (strip s))"
proof -
  assume ne: "strip s \<noteq> []"
  let ?d = "dropWhile is_space (rev (dropWhile is_space s))"
  from ne have d: "?d \<noteq> []" by (simp add: strip_def)
  then have "\<not> is_space (hd ?d)" by (rule hd_dropWhile)
  moreover have "last (strip s) = hd ?d" using d by (simp add: strip_def last_rev)
  ultimately show ?thesis by simp
qed

lemma command_arg_no_trailing:
  "command_arg t \<noteq> [] \<Longrightarrow> \<not> is_space (last (command_arg t))"
  by (auto simp: command_arg_def strip_no_trailing split: if_splits list.splits)

lemma wallet_re_match_command_arg: "wallet_re_match (command_arg t) = hex_address (command_arg t)"
proof (cases "hex_address (command_arg t)")
  case True
  then show ?thesis by (simp add: wallet_re_match_def)
next
  case False
  have "\<not> (length (command_arg t) = 43 \<and> drop 42 (command_arg t) = [CHR 0x0A])"
  proof
    assume a: "length (command_arg t) = 43 \<and> drop 42 (command_arg t) = [CHR 0x0A]"
    then have ne: "command_arg t \<noteq> []" by auto
    from a have "last (drop 42 (command_arg t)) = last (command_arg t)"
      by (intro last_drop) simp
    with a have "last (command_arg t) = CHR 0x0A" by simp
    then have "is_space (last (command_arg t))" by (simp add: is_space_def)
    with command_arg_no_trailing [OF ne] show False by simp
  qed
  with False show ?thesis by (auto simp: wallet_re_match_def)
qed

lemma add_wallet_branch:
  "startswith (lower (strip text)) ''/add_wallet '' \<Longrightarrow>
   process_telegram_command text e st = add_wallet (strip text) st"
  by (auto simp: process_telegram_command_def Let_def startswith_def)

text \<open>
  C6. For a message whose lower-cased text starts with \<^verbatim>\<open>/add_wallet\<close> and a blank, with
  \<open>w\<close> the argument the handler reads: when \<open>w\<close> is not \<open>0x\<close> followed by exactly 40
  hexadecimal characters the command is refused and the state is unchanged; when \<open>w\<close>
  is such an address and already in the list the reply is "already exists" and the
  state is unchanged; only otherwise is \<open>w\<close> appended, at the end of the list.
\<close>

theorem add_wallet_validation:
  assumes "startswith (lower (strip text)) ''/add_wallet ''"
    and "w = command_arg (strip text)"
    and "ws = wallets (cfg st)"
  shows "(\<not> hex_address w \<longrightarrow>
            fst (process_telegram_command text e st) = st \<and>
            snd (process_telegram_command text e st) \<in> {[WalletInvalid w], [AddWalletUsage]}) \<and>
         (hex_address w \<and> w \<in> set ws \<longrightarrow>
            process_telegram_command text e st = (st, [WalletExists w])) \<and>
         (hex_address w \<and> w \<notin> set ws \<longrightarrow>
            process_telegram_command text e st =
              (st\<lparr>cfg := (cfg st)\<lparr>wallets := ws @ [w]\<rparr>\<rparr>, [WalletAdded w (length ws + 1)]))"
proof -
  have ne: "hex_address w \<Longrightarrow> w \<noteq> []" by (auto simp: hex_address_def)
  show ?thesis
    unfolding add_wallet_branch [OF assms(1)] add_wallet_def Let_def
      assms(2) [symmetric] assms(3) [symmetric]
    using ne wallet_re_match_command_arg [of "strip text"]
    by (auto simp: assms(2) [symmetric] assms(3) [symmetric])
qed

lemma split_acc_run:
  "\<forall>c \<in> set u. \<not> is_space c \<Longrightarrow> split_acc cur (u @ v) = split_acc (cur @ u) v"
  by (induction u arbitrary: cur) auto

lemma split_acc_word:
  "\<forall>c \<in> set u. \<not> is_space c \<Longrightarrow> split_acc cur u = (if cur @ u = [] then [] else [cur @ u])"
  using split_acc_run [of u cur "[]"] by simp

lemma split_ws_two:
  assumes "\<forall>c \<in> set u. \<not> is_space c" "u \<noteq> []" "\<forall>c \<in> set w. \<not> is_space c" "w \<noteq> []"
  shows "split_ws (u @ CHR '' '' # w) = [u, w]"
proof -
  have "split_acc [] (u @ CHR '' '' # w) = split_acc u (CHR '' '' # w)"
    using split_acc_run [OF assms(1), of "[]"] by simp
  also have "\<dots> = u # split_acc [] w"
    using assms(2) by (simp add: is_space_def)
  also have "\<dots> = [u, w]"
    using assms(3,4) by (simp add: split_acc_word)
  finally show ?thesis by (simp add: split_ws_def)
qed

lemma dropWhile_hd: "xs \<noteq> [] \<Longrightarrow> \<not> P (hd xs) \<Longrightarrow> dropWhile P xs = xs"
  by (cases xs) auto

lemma strip_id:
  assumes "s \<noteq> []" "\<not> is_space (hd s)" "\<not> is_space (last s)"
  shows "strip s = s"
proof -
  have 1: "dropWhile is_space s = s"
    using assms(1,2) by (rule dropWhile_hd)
  have "rev s \<noteq> []" "\<not> is_space (hd (rev s))"
    using assms(1,3) by (simp_all add: hd_rev)
  then have 2: "dropWhile is_space (rev s) = rev s"
    by (rule dropWhile_hd)
  show ?thesis
    unfolding strip_def 1 2 by simp
qed

lemma split_max1_word:
  assumes "s \<noteq> []" "\<not> is_space (hd s)"
  shows "split_max1 s =
     (let first = takeWhile (\<lambda>c. \<not> is_space c) s;
          rest = dropWhile is_space (dropWhile (\<lambda>c. \<not> is_space c) s)
      in if rest = [] then [first] else [first, rest])"
proof -
  from assms obtain a t where s: "s = a # t" and a: "\<not> is_space a"
    by (cases s) auto
  then have "dropWhile is_space s = a # t" by simp
  then show ?thesis
    unfolding split_max1_def s by simp
qed

lemma split_max1_two:
  assumes "\<forall>c \<in> set u. \<not> is_space c" "u \<noteq> []" "\<forall>c \<in> set w. \<not> is_space c" "w \<noteq> []"
  shows "split_max1 (u @ CHR '' '' # w) = [u, w]"
proof -
  have sp: "is_space CHR '' ''" by (simp add: is_space_def)
  have 0: "u @ CHR '' '' # w \<noteq> []" "\<not> is_space (hd (u @ CHR '' '' # w))"
    using assms(1,2) by (cases u; simp)+
  have 2: "takeWhile (\<lambda>c. \<not> is_space c) (u @ CHR '' '' # w) = u"
    using assms(1) sp by (simp add: takeWhile_append2)
  have 3: "dropWhile (\<lambda>c. \<not> is_space c) (u @ CHR '' '' # w) = CHR '' '' # w"
    using assms(1) sp by (simp add: dropWhile_append2)
  have 4: "dropWhile is_space (CHR '' '' # w) = w"
    using assms(3,4) sp by (cases w) auto
  show ?thesis
    unfolding split_max1_word [OF 0] 2 3 4 Let_def using assms(4) by simp
qed

lemma command_arg_two:
  assumes "\<forall>c \<in> set u. \<not> is_space c" "u \<noteq> []" "\<forall>c \<in> set w. \<not> is_space c" "w \<noteq> []"
  shows "command_arg (u @ CHR '' '' # w) = w"
proof -
  have "strip w = w"
    using assms(3,4) by (intro strip_id) auto
  then show ?thesis
    by (simp add: command_arg_def split_ws_two [OF assms] split_max1_two [OF assms])
qed

lemma hex_not_space: "is_hex c \<Longrightarrow> \<not> is_space c"
  by (auto simp: is_hex_def is_space_def)

lemma hex_address_no_space:
  assumes "hex_address w"
  shows "\<forall>c \<in> set w. \<not> is_space c" and "w \<noteq> []"
proof -
  from assms have p: "take 2 w = ''0x''" and h: "\<forall>c \<in> set (drop 2 w). is_hex c"
    and l: "length w = 42"
    by (auto simp: hex_address_def list_all_iff)
  show "\<forall>c \<in> set w. \<not> is_space c"
  proof
    fix c assume "c \<in> set w"
    then have "c \<in> set (take 2 w @ drop 2 w)" by simp
    then have "c \<in> set ''0x'' \<or> c \<in> set (drop 2 w)"
      unfolding set_append p by blast
    then show "\<not> is_space c"
    proof
      assume "c \<in> set ''0x''"
      then show ?thesis by (auto simp: is_space_def)
    next
      assume "c \<in> set (drop 2 w)"
      with h show ?thesis by (blast dest: hex_not_space)
    qed
  qed
  from l show "w \<noteq> []" by auto
qed

lemma startswith_append: "startswith (p @ x) p"
  by (simp add: startswith_def)

lemma lower_append: "lower (p @ x) = lower p @ lower x"
  by (simp add: lower_def)

text \<open>The message \<^verbatim>\<open>/add_wallet w\<close> for a word \<open>w\<close>: the handler is the one for
  \<^verbatim>\<open>/add_wallet\<close> and its argument is \<open>w\<close>.\<close>

lemma add_wallet_text:
  assumes "\<forall>c \<in> set w. \<not> is_space c" "w \<noteq> []"
  shows "strip (''/add_wallet '' @ w) = ''/add_wallet '' @ w"
    and "startswith (lower (strip (''/add_wallet '' @ w))) ''/add_wallet ''"
    and "command_arg (strip (''/add_wallet '' @ w)) = w"
proof -
  show s: "strip (''/add_wallet '' @ w) = ''/add_wallet '' @ w"
    using assms by (intro strip_id) (auto simp: is_space_def)
  have "lower ''/add_wallet '' = ''/add_wallet ''"
    by (simp add: lower_def lower_char_def)
  then show "startswith (lower (strip (''/add_wallet '' @ w))) ''/add_wallet ''"
    unfolding s lower_append by (simp only: startswith_append)
  have e: "''/add_wallet '' @ w = ''/add_wallet'' @ CHR '' '' # w"
    by simp
  have u: "\<forall>c \<in> set ''/add_wallet''. \<not> is_space c" "''/add_wallet'' \<noteq> []"
    by (simp_all add: is_space_def)
  show "command_arg (strip (''/add_wallet '' @ w)) = w"
    unfolding s unfolding e by (rule command_arg_two [OF u assms])
qed

lemma ex_addr_facts:
  "hex_address ex_addr" "hex_address ex_addr_lower" "\<not> hex_address ex_addr_short"
  "lower ex_addr = lower ex_addr_lower" "ex_addr \<noteq> ex_addr_lower"
  "take 2 ex_addr = ''0x''"
  by (simp_all add: hex_address_def ex_addr_def ex_addr_lower_def ex_addr_short_def is_hex_def
      lower_def lower_char_def)

lemma ex_addr_short_word: "\<forall>c \<in> set ex_addr_short. \<not> is_space c" "ex_addr_short \<noteq> []"
  by (simp_all add: ex_addr_short_def is_space_def)

theorem add_wallet_validation_witness:
  "fst (process_telegram_command (''/add_wallet '' @ ex_addr_short) ex_env (ex_wallets [ex_addr]))
     = ex_wallets [ex_addr] \<and>
   snd (process_telegram_command (''/add_wallet '' @ ex_addr_short) ex_env (ex_wallets [ex_addr]))
     \<in> {[WalletInvalid ex_addr_short], [AddWalletUsage]} \<and>
   process_telegram_command (''/add_wallet '' @ ex_addr) ex_env (ex_wallets [ex_addr]) =
     (ex_wallets [ex_addr], [WalletExists ex_addr]) \<and>
   process_telegram_command (''/add_wallet '' @ ex_addr) ex_env (ex_wallets [''A'']) =
     (ex_wallets [''A'', ex_addr], [WalletAdded ex_addr 2])"
proof -
  note t1 = add_wallet_text [OF ex_addr_short_word]
  note t2 = add_wallet_text [OF hex_address_no_space [OF ex_addr_facts(1)]]
  have w1: "wallets (cfg (ex_wallets [ex_addr])) = [ex_addr]"
    and w2: "wallets (cfg (ex_wallets [''A''])) = [''A'']"
    by (simp_all add: ex_wallets_def)
  note a = add_wallet_validation [OF t1(2) t1(3) [symmetric] w1 [symmetric],
      of ex_env]
  note b = add_wallet_validation [OF t2(2) t2(3) [symmetric] w1 [symmetric],
      of ex_env]
  note c = add_wallet_validation [OF t2(2) t2(3) [symmetric] w2 [symmetric],
      of ex_env]
  have 1: "fst (process_telegram_command (''/add_wallet '' @ ex_addr_short) ex_env
      (ex_wallets [ex_addr])) = ex_wallets [ex_addr] \<and>
    snd (process_telegram_command (''/add_wallet '' @ ex_addr_short) ex_env (ex_wallets [ex_addr]))
     \<in> {[WalletInvalid ex_addr_short], [AddWalletUsage]}"
    using a ex_addr_facts(3) by blast
  have 2: "process_telegram_command (''/add_wallet '' @ ex_addr) ex_env (ex_wallets [ex_addr]) =
     (ex_wallets [ex_addr], [WalletExists ex_addr])"
    using b ex_addr_facts(1) by simp
  have n: "ex_addr \<notin> set [''A'']"
    by (simp add: ex_addr_def)
  have "process_telegram_command (''/add_wallet '' @ ex_addr) ex_env (ex_wallets [''A'']) =
     ((ex_wallets [''A''])\<lparr>cfg := (cfg (ex_wallets [''A'']))\<lparr>wallets := [''A''] @ [ex_addr]\<rparr>\<rparr>,
      [WalletAdded ex_addr (length [''A''] + 1)])"
    using c ex_addr_facts(1) n by blast
  then have 3: "process_telegram_command (''/add_wallet '' @ ex_addr) ex_env (ex_wallets [''A'']) =
     (ex_wallets [''A'', ex_addr], [WalletAdded ex_addr 2])"
    by (simp add: ex_wallets_def)
  from 1 2 3 show ?thesis by blast
qed

lemma add_wallet_present:
  assumes "command_arg t = w" "hex_address w" "w \<in> set (wallets (cfg st))"
  shows "add_wallet t st = (st, [WalletExists w])"
proof -
  have "w \<noteq> []" using assms(2) by (auto simp: hex_address_def)
  then show ?thesis
    using assms wallet_re_match_command_arg [of t] by (simp add: add_wallet_def Let_def)
qed

lemma add_wallet_fresh:
  assumes "command_arg t = w" "hex_address w" "w \<notin> set (wallets (cfg st))"
  shows "add_wallet t st =
    (st\<lparr>cfg := (cfg st)\<lparr>wallets := wallets (cfg st) @ [w]\<rparr>\<rparr>,
     [WalletAdded w (length (wallets (cfg st)) + 1)])"
proof -
  have "w \<noteq> []" using assms(2) by (auto simp: hex_address_def)
  then show ?thesis
    using assms wallet_re_match_command_arg [of t] by (simp add: add_wallet_def Let_def)
qed

lemma is_hex_lower_char: "lower_char a = lower_char b \<Longrightarrow> is_hex b \<Longrightarrow> is_hex a"
  by (auto simp: is_hex_def lower_char_def split: if_splits)

lemma list_all_hex_lower:
  "map lower_char xs = map lower_char ys \<Longrightarrow> list_all is_hex ys \<Longrightarrow> list_all is_hex xs"
proof (induction xs arbitrary: ys)
  case Nil
  then show ?case by simp
next
  case (Cons x xs)
  then obtain y ys' where ys: "ys = y # ys'" by (cases ys) auto
  with Cons.prems have "lower_char x = lower_char y" "map lower_char xs = map lower_char ys'"
    "is_hex y" "list_all is_hex ys'" by auto
  then show ?case using Cons.IH [of ys'] is_hex_lower_char [of x y] by simp
qed

lemma hex_address_case_variant:
  assumes "hex_address w" "lower v = lower w" "take 2 v = ''0x''"
  shows "hex_address v"
proof -
  from assms(2) have m: "map lower_char v = map lower_char w" by (simp add: lower_def)
  then have "length (map lower_char v) = length (map lower_char w)" by simp
  then have l: "length v = length w" by simp
  from m have "drop 2 (map lower_char v) = drop 2 (map lower_char w)" by simp
  then have "map lower_char (drop 2 v) = map lower_char (drop 2 w)" by (simp add: drop_map)
  moreover have "list_all is_hex (drop 2 w)" using assms(1) by (simp add: hex_address_def)
  ultimately have "list_all is_hex (drop 2 v)" by (rule list_all_hex_lower)
  with l assms(1,3) show ?thesis by (simp add: hex_address_def)
qed

lemma startswith_self: "startswith s s"
  by (simp add: startswith_def)

lemma remove_wallet_branch:
  assumes "startswith (lower (strip text)) ''/remove_wallet ''"
  shows "process_telegram_command text e st = remove_wallet (strip text) st"
proof -
  let ?l = "lower (strip text)"
  have len: "length ''/remove_wallet '' = 15" "length ''/add_wallet '' = 12"
    by simp_all
  from assms have t: "take 15 ?l = ''/remove_wallet ''"
    unfolding startswith_def len .
  have "take 12 ?l = take 12 (take 15 ?l)" by simp
  also have "\<dots> = ''/remove_wall''" unfolding t by simp
  finally have a: "\<not> startswith ?l ''/add_wallet ''"
    unfolding startswith_def len by simp
  from t have b: "?l \<noteq> ''/start''" "?l \<noteq> ''/help''" "?l \<noteq> ''/commands''"
    "?l \<noteq> ''/ejemplos''" "?l \<noteq> ''/examples''" by auto
  show ?thesis
    using assms a b by (simp add: process_telegram_command_def Let_def)
qed

lemma remove_wallet_text:
  assumes "\<forall>c \<in> set w. \<not> is_space c" "w \<noteq> []"
  shows "strip (''/remove_wallet '' @ w) = ''/remove_wallet '' @ w"
    and "startswith (lower (strip (''/remove_wallet '' @ w))) ''/remove_wallet ''"
    and "command_arg (strip (''/remove_wallet '' @ w)) = w"
proof -
  show s: "strip (''/remove_wallet '' @ w) = ''/remove_wallet '' @ w"
    using assms by (intro strip_id) (auto simp: is_space_def)
  have "lower ''/remove_wallet '' = ''/remove_wallet ''"
    by (simp add: lower_def lower_char_def)
  then show "startswith (lower (strip (''/remove_wallet '' @ w))) ''/remove_wallet ''"
    unfolding s lower_append by (simp only: startswith_append)
  have e: "''/remove_wallet '' @ w = ''/remove_wallet'' @ CHR '' '' # w"
    by simp
  have u: "\<forall>c \<in> set ''/remove_wallet''. \<not> is_space c" "''/remove_wallet'' \<noteq> []"
    by (simp_all add: is_space_def)
  show "command_arg (strip (''/remove_wallet '' @ w)) = w"
    unfolding s unfolding e by (rule command_arg_two [OF u assms])
qed

lemma remove_wallet_match:
  assumes "command_arg t = v" "v \<noteq> []" "w \<in> set (wallets (cfg st))" "lower w = lower v"
  shows "\<exists>x \<in> set (wallets (cfg st)). startswith (lower x) (lower v) \<and>
    remove_wallet t st =
      (st\<lparr>cfg := (cfg st)\<lparr>wallets := remove1 x (wallets (cfg st))\<rparr>\<rparr>,
       [WalletRemoved x (length (remove1 x (wallets (cfg st))))])"
proof -
  let ?P = "\<lambda>x. lower x = lower v \<or> startswith (lower x) (lower v)"
  let ?ws = "wallets (cfg st)"
  from assms(3,4) have "\<exists>x \<in> set ?ws. ?P x" by blast
  then obtain x where f: "find ?P ?ws = Some x"
    by (cases "find ?P ?ws") (auto simp: find_None_iff)
  then have x: "x \<in> set ?ws" "?P x"
    by (auto simp: find_Some_iff)
  then have sw: "startswith (lower x) (lower v)"
    by (auto simp: startswith_self)
  have "lower v \<noteq> []" using assms(2) by (simp add: lower_def)
  with sw have "x \<noteq> []" by (auto simp: startswith_def lower_def)
  then have "remove_wallet t st =
      (st\<lparr>cfg := (cfg st)\<lparr>wallets := remove1 x ?ws\<rparr>\<rparr>,
       [WalletRemoved x (length (remove1 x ?ws))])"
    using assms(1,2) f by (simp add: remove_wallet_def Let_def)
  with x(1) sw show ?thesis by blast
qed

text \<open>
  C10 (as amended). The duplicate test of \<^verbatim>\<open>/add_wallet\<close> is string equality and the
  match of \<^verbatim>\<open>/remove_wallet\<close> is on lower-cased text. Let \<open>w\<close> be a valid address of the
  wallet list and \<open>v\<close> a string with the same lower-cased form that keeps the prefix
  \<open>0x\<close> and is not itself in the list. Then \<open>v\<close> is a valid address,
  \<^verbatim>\<open>/add_wallet v\<close> appends it as a further entry, and \<^verbatim>\<open>/remove_wallet v\<close> finds a
  stored wallet whose lower-cased form starts with that of \<open>v\<close> and removes it.
\<close>

theorem add_wallet_case_variant:
  assumes "hex_address w" and "w \<in> set (wallets (cfg st))"
    and "lower v = lower w" and "take 2 v = ''0x''" and "v \<notin> set (wallets (cfg st))"
  shows "hex_address v \<and>
    process_telegram_command (''/add_wallet '' @ v) e st =
      (st\<lparr>cfg := (cfg st)\<lparr>wallets := wallets (cfg st) @ [v]\<rparr>\<rparr>,
       [WalletAdded v (length (wallets (cfg st)) + 1)]) \<and>
    (\<exists>x \<in> set (wallets (cfg st)). startswith (lower x) (lower v) \<and>
       process_telegram_command (''/remove_wallet '' @ v) e st =
         (st\<lparr>cfg := (cfg st)\<lparr>wallets := remove1 x (wallets (cfg st))\<rparr>\<rparr>,
          [WalletRemoved x (length (remove1 x (wallets (cfg st))))]))"
proof -
  have h: "hex_address v"
    using assms(1,3,4) by (rule hex_address_case_variant)
  note word = hex_address_no_space [OF h]
  note ta = add_wallet_text [OF word]
  note tr = remove_wallet_text [OF word]
  have 1: "process_telegram_command (''/add_wallet '' @ v) e st =
      (st\<lparr>cfg := (cfg st)\<lparr>wallets := wallets (cfg st) @ [v]\<rparr>\<rparr>,
       [WalletAdded v (length (wallets (cfg st)) + 1)])"
    unfolding add_wallet_branch [OF ta(2)] using ta(3) h assms(5) by (rule add_wallet_fresh)
  have 2: "\<exists>x \<in> set (wallets (cfg st)). startswith (lower x) (lower v) \<and>
       process_telegram_command (''/remove_wallet '' @ v) e st =
         (st\<lparr>cfg := (cfg st)\<lparr>wallets := remove1 x (wallets (cfg st))\<rparr>\<rparr>,
          [WalletRemoved x (length (remove1 x (wallets (cfg st))))])"
    unfolding remove_wallet_branch [OF tr(2)]
    using tr(3) word(2) assms(2) assms(3) [symmetric] by (rule remove_wallet_match)
  from h 1 2 show ?thesis by blast
qed

lemma ex_wallets_simps:
  "wallets (cfg (ex_wallets ws)) = ws"
  "(ex_wallets ws)\<lparr>cfg := (cfg (ex_wallets ws))\<lparr>wallets := ws'\<rparr>\<rparr> = ex_wallets ws'"
  by (simp_all add: ex_wallets_def)

theorem add_wallet_case_variant_witness:
  "hex_address ex_addr \<and>
   process_telegram_command (''/add_wallet '' @ ex_addr) ex_env (ex_wallets [ex_addr_lower]) =
     (ex_wallets [ex_addr_lower, ex_addr], [WalletAdded ex_addr 2]) \<and>
   process_telegram_command (''/remove_wallet '' @ ex_addr) ex_env (ex_wallets [ex_addr_lower]) =
     (ex_wallets [], [WalletRemoved ex_addr_lower 0])"
proof -
  have m: "ex_addr_lower \<in> set (wallets (cfg (ex_wallets [ex_addr_lower])))"
    and n: "ex_addr \<notin> set (wallets (cfg (ex_wallets [ex_addr_lower])))"
    using ex_addr_facts(5) by (simp_all add: ex_wallets_simps)
  note a = add_wallet_case_variant [OF ex_addr_facts(2) m ex_addr_facts(4) ex_addr_facts(6) n,
      of ex_env, unfolded ex_wallets_simps]
  have 1: "hex_address ex_addr"
    using a by blast
  have 2: "process_telegram_command (''/add_wallet '' @ ex_addr) ex_env
       (ex_wallets [ex_addr_lower]) =
     (ex_wallets [ex_addr_lower, ex_addr], [WalletAdded ex_addr 2])"
    using a by simp
  have 3: "process_telegram_command (''/remove_wallet '' @ ex_addr) ex_env
       (ex_wallets [ex_addr_lower]) = (ex_wallets [], [WalletRemoved ex_addr_lower 0])"
    using a by simp
  from 1 2 3 show ?thesis by blast
qed

text \<open>
  C10 as stated does not hold for every hex-case variant of a stored address: once
  both the lower-case address and the address of the help text are stored (the second
  was appended by \<^verbatim>\<open>/add_wallet\<close> as above), \<^verbatim>\<open>/add_wallet\<close> of the second, which is a
  case variant of the stored first, is refused as a duplicate and appends nothing.
\<close>

theorem add_wallet_case_variant_counterexample:
  "hex_address ex_addr_lower \<and>
   ex_addr_lower \<in> set (wallets (cfg (ex_wallets [ex_addr_lower, ex_addr]))) \<and>
   lower ex_addr = lower ex_addr_lower \<and> ex_addr \<noteq> ex_addr_lower \<and>
   hex_address ex_addr \<and>
   process_telegram_command (''/add_wallet '' @ ex_addr) ex_env
       (ex_wallets [ex_addr_lower, ex_addr]) =
     (ex_wallets [ex_addr_lower, ex_addr], [WalletExists ex_addr])"
proof -
  note ta = add_wallet_text [OF hex_address_no_space [OF ex_addr_facts(1)]]
  have "process_telegram_command (''/add_wallet '' @ ex_addr) ex_env
       (ex_wallets [ex_addr_lower, ex_addr]) =
     (ex_wallets [ex_addr_lower, ex_addr], [WalletExists ex_addr])"
    unfolding add_wallet_branch [OF ta(2)]
    using ta(3) ex_addr_facts(1) by (rule add_wallet_present) (simp add: ex_wallets_simps)
  then show ?thesis
    using ex_addr_facts by (simp add: ex_wallets_simps)
qed

end
